theory Spec2Isabelle
  imports Complex_Main
begin

section \<open>Tensors\<close>

text \<open>
  The script \<^verbatim>\<open>vae_mnist_wandb.py\<close> computes with torch tensors. A tensor is modelled by its
  shape and its elements in row-major order, the way a contiguous torch tensor is stored.
  Elements are mathematical reals, so every statement below is about exact arithmetic.
  A 0-dimensional tensor (the result of \<^verbatim>\<open>torch.sum\<close>, of a summed loss) is a plain real.
\<close>

record tensor =
  shape :: "nat list"
  data :: "real list"

datatype py_error = RuntimeError | ValueError | NameError | ZeroDivisionError

text \<open>
  Every tensor torch builds has as many elements as its shape says; \<open>tensor_wf\<close> is this
  invariant of the representation.
\<close>

definition tensor_wf :: "tensor \<Rightarrow> bool" where
  "tensor_wf t = (length (data t) = prod_list (shape t))"

definition bind_err :: "py_error + 'a \<Rightarrow> ('a \<Rightarrow> py_error + 'b) \<Rightarrow> py_error + 'b" where
  "bind_err r f = (case r of Inl e \<Rightarrow> Inl e | Inr v \<Rightarrow> f v)"

text \<open>Elementwise functions and operations with a Python scalar keep the shape.\<close>

definition tmap :: "(real \<Rightarrow> real) \<Rightarrow> tensor \<Rightarrow> tensor" where
  "tmap f t = t\<lparr>data := map f (data t)\<rparr>"

definition torch_relu :: "tensor \<Rightarrow> tensor" where
  "torch_relu t = tmap (\<lambda>v. max 0 v) t"

definition sigmoid :: "real \<Rightarrow> real" where
  "sigmoid v = 1 / (1 + exp (- v))"

definition torch_sigmoid :: "tensor \<Rightarrow> tensor" where
  "torch_sigmoid t = tmap sigmoid t"

definition torch_exp :: "tensor \<Rightarrow> tensor" where
  "torch_exp t = tmap exp t"

definition tensor_pow :: "tensor \<Rightarrow> nat \<Rightarrow> tensor" where
  "tensor_pow t k = tmap (\<lambda>v. v ^ k) t"

definition scalar_mul :: "real \<Rightarrow> tensor \<Rightarrow> tensor" where
  "scalar_mul c t = tmap (\<lambda>v. c * v) t"

definition scalar_add :: "real \<Rightarrow> tensor \<Rightarrow> tensor" where
  "scalar_add c t = tmap (\<lambda>v. c + v) t"

definition torch_sum :: "tensor \<Rightarrow> real" where
  "torch_sum t = sum_list (data t)"

text \<open>
  Binary elementwise operations broadcast their operands: shapes are aligned at the last
  dimension, a missing leading dimension counts as 1, and two sizes are compatible when
  they are equal or one of them is 1. Incompatible shapes raise \<^verbatim>\<open>RuntimeError\<close>.
  \<open>broadcast_rev\<close> works on the reversed shapes.
\<close>

fun broadcast_rev :: "nat list \<Rightarrow> nat list \<Rightarrow> nat list option" where
  "broadcast_rev [] bs = Some bs"
| "broadcast_rev (a # as) [] = Some (a # as)"
| "broadcast_rev (a # as) (b # bs) =
     (if a = b \<or> b = 1 then map_option ((#) a) (broadcast_rev as bs)
      else if a = 1 then map_option ((#) b) (broadcast_rev as bs)
      else None)"

definition broadcast_shapes :: "nat list \<Rightarrow> nat list \<Rightarrow> nat list option" where
  "broadcast_shapes s t = map_option rev (broadcast_rev (rev s) (rev t))"

definition pad_shape :: "nat \<Rightarrow> nat list \<Rightarrow> nat list" where
  "pad_shape n s = replicate (n - length s) 1 @ s"

text \<open>
  \<open>expand s t d\<close> lays the elements \<open>d\<close> of a tensor of shape \<open>s\<close> out in the shape \<open>t\<close>
  (same rank): a dimension of equal size is kept block by block, a dimension of size 1 is
  repeated.
\<close>

fun expand :: "nat list \<Rightarrow> nat list \<Rightarrow> real list \<Rightarrow> real list" where
  "expand (a # s) (b # t) d =
     (if a = b
      then concat (map (\<lambda>i. expand s t (take (prod_list s) (drop (i * prod_list s) d))) [0..<a])
      else concat (replicate b (expand s t d)))"
| "expand [] t d = d"
| "expand (a # s) [] d = d"

definition broadcast_op :: "(real \<Rightarrow> real \<Rightarrow> real) \<Rightarrow> tensor \<Rightarrow> tensor \<Rightarrow> py_error + tensor" where
  "broadcast_op f x y =
     (case broadcast_shapes (shape x) (shape y) of
        None \<Rightarrow> Inl RuntimeError
      | Some s \<Rightarrow>
          Inr \<lparr>shape = s,
               data = map2 f (expand (pad_shape (length s) (shape x)) s (data x))
                             (expand (pad_shape (length s) (shape y)) s (data y))\<rparr>)"

definition tensor_add :: "tensor \<Rightarrow> tensor \<Rightarrow> py_error + tensor" where
  "tensor_add x y = broadcast_op (+) x y"

definition tensor_sub :: "tensor \<Rightarrow> tensor \<Rightarrow> py_error + tensor" where
  "tensor_sub x y = broadcast_op (-) x y"

definition tensor_mul :: "tensor \<Rightarrow> tensor \<Rightarrow> py_error + tensor" where
  "tensor_mul x y = broadcast_op (*) x y"

definition tensor_view :: "tensor \<Rightarrow> nat list \<Rightarrow> py_error + tensor" where
  "tensor_view t s =
     (if prod_list s = prod_list (shape t) then Inr \<lparr>shape = s, data = data t\<rparr>
      else Inl RuntimeError)"

text \<open>
  Random numbers. The generator is the sequence of samples that the calls of
  \<^verbatim>\<open>torch.randn\<close> and \<^verbatim>\<open>torch.randn_like\<close> receive, in the order of the draws: a call
  takes as many samples as the tensor has elements and leaves the rest for the next call.
  That the samples follow a standard normal distribution is a property of torch, not of
  the script, and is not part of the model.
\<close>

type_synonym generator = "nat \<Rightarrow> real"

definition torch_randn :: "nat list \<Rightarrow> generator \<Rightarrow> tensor \<times> generator" where
  "torch_randn s g =
     (\<lparr>shape = s, data = map g [0..<prod_list s]\<rparr>, (\<lambda>i. g (i + prod_list s)))"

definition randn_like :: "tensor \<Rightarrow> generator \<Rightarrow> tensor \<times> generator" where
  "randn_like t g = torch_randn (shape t) g"

section \<open>The modules\<close>

text \<open>
  \<^verbatim>\<open>nn.Linear(in_features, out_features)\<close> holds a weight of shape
  \<open>[out_features, in_features]\<close> and a bias of shape \<open>[out_features]\<close>; applied to an
  input whose last dimension is \<open>in_features\<close> it computes \<open>x W\<^sup>T + b\<close> row by row and
  raises \<^verbatim>\<open>RuntimeError\<close> on any other input.
\<close>

record Linear =
  weight :: tensor
  bias :: tensor

definition Linear_forward :: "Linear \<Rightarrow> tensor \<Rightarrow> py_error + tensor" where
  "Linear_forward L x =
     (case shape (weight L) of
        [out_features, in_features] \<Rightarrow>
          if shape x \<noteq> [] \<and> last (shape x) = in_features \<and> shape (bias L) = [out_features]
          then Inr \<lparr>shape = butlast (shape x) @ [out_features],
                    data = concat (map (\<lambda>i. map (\<lambda>k.
                             sum_list (map (\<lambda>j. data x ! (i * in_features + j)
                                                * data (weight L) ! (k * in_features + j))
                                           [0..<in_features])
                             + data (bias L) ! k) [0..<out_features])
                           [0..<prod_list (butlast (shape x))])\<rparr>
          else Inl RuntimeError
      | _ \<Rightarrow> Inl RuntimeError)"

text \<open>What the constructor \<^verbatim>\<open>nn.Linear(in_features, out_features)\<close> establishes.\<close>

definition Linear_wf :: "Linear \<Rightarrow> nat \<Rightarrow> nat \<Rightarrow> bool" where
  "Linear_wf L in_features out_features =
     (shape (weight L) = [out_features, in_features] \<and> tensor_wf (weight L) \<and>
      shape (bias L) = [out_features] \<and> tensor_wf (bias L))"

record Encoder =
  FC_input :: Linear
  FC_mean :: Linear
  FC_var :: Linear

definition Encoder_wf :: "Encoder \<Rightarrow> nat \<Rightarrow> nat \<Rightarrow> nat \<Rightarrow> bool" where
  "Encoder_wf e input_dim hidden latent =
     (Linear_wf (FC_input e) input_dim hidden \<and> Linear_wf (FC_mean e) hidden latent \<and>
      Linear_wf (FC_var e) hidden latent)"

definition reparameterization ::
  "tensor \<Rightarrow> tensor \<Rightarrow> generator \<Rightarrow> py_error + tensor \<times> generator" where
  "reparameterization mean std g =
     (case randn_like std g of (epsilon, g') \<Rightarrow>
        bind_err (tensor_mul std epsilon) (\<lambda>se.
        bind_err (tensor_add mean se) (\<lambda>z.
        Inr (z, g'))))"

definition Encoder_forward ::
  "Encoder \<Rightarrow> tensor \<Rightarrow> generator \<Rightarrow> py_error + (tensor \<times> tensor \<times> tensor) \<times> generator" where
  "Encoder_forward e x g =
     bind_err (Linear_forward (FC_input e) x) (\<lambda>a.
     let h = torch_relu a in
     bind_err (Linear_forward (FC_mean e) h) (\<lambda>mean.
     bind_err (Linear_forward (FC_var e) h) (\<lambda>log_var.
     let std = torch_exp (scalar_mul 0.5 log_var) in
     bind_err (reparameterization mean std g) (\<lambda>(z, g').
     Inr ((z, mean, log_var), g')))))"

record Decoder =
  FC_hidden :: Linear
  FC_output :: Linear

definition Decoder_wf :: "Decoder \<Rightarrow> nat \<Rightarrow> nat \<Rightarrow> nat \<Rightarrow> bool" where
  "Decoder_wf d latent hidden output_dim =
     (Linear_wf (FC_hidden d) latent hidden \<and> Linear_wf (FC_output d) hidden output_dim)"

definition Decoder_forward :: "Decoder \<Rightarrow> tensor \<Rightarrow> py_error + tensor" where
  "Decoder_forward d x =
     bind_err (Linear_forward (FC_hidden d) x) (\<lambda>a.
     let h = torch_relu a in
     bind_err (Linear_forward (FC_output d) h) (\<lambda>b.
     Inr (torch_sigmoid b)))"

record Model =
  encoder :: Encoder
  decoder :: Decoder

definition Model_forward ::
  "Model \<Rightarrow> tensor \<Rightarrow> generator \<Rightarrow> py_error + (tensor \<times> tensor \<times> tensor) \<times> generator" where
  "Model_forward m x g =
     bind_err (Encoder_forward (encoder m) x g) (\<lambda>((z, mean, log_var), g').
     bind_err (Decoder_forward (decoder m) z) (\<lambda>x_hat.
     Inr ((x_hat, mean, log_var), g')))"

text \<open>The hyperparameters of the script and the model it builds from them.\<close>

definition batch_size :: nat where "batch_size = 100"
definition x_dim :: nat where "x_dim = 784"
definition hidden_dim :: nat where "hidden_dim = 400"
definition latent_dim :: nat where "latent_dim = 20"
definition epochs :: nat where "epochs = 5"
definition log_interval :: nat where "log_interval = 10"

definition Model_wf :: "Model \<Rightarrow> bool" where
  "Model_wf m =
     (Encoder_wf (encoder m) x_dim hidden_dim latent_dim \<and>
      Decoder_wf (decoder m) latent_dim hidden_dim x_dim)"

section \<open>The loss function\<close>

text \<open>
  \<^verbatim>\<open>nn.functional.binary_cross_entropy(input, target, reduction="sum")\<close> raises
  \<^verbatim>\<open>ValueError\<close> when the two sizes differ and \<^verbatim>\<open>RuntimeError\<close> when an element of the
  input is outside [0,1]. Each of its two logarithms is clamped below at -100 (the
  logarithm of 0 is minus infinity in torch, hence -100 after the clamp).
\<close>

definition clamped_log :: "real \<Rightarrow> real" where
  "clamped_log p = (if p \<le> 0 then - 100 else max (ln p) (- 100))"

definition bce_elem :: "real \<Rightarrow> real \<Rightarrow> real" where
  "bce_elem p y = - (y * clamped_log p + (1 - y) * clamped_log (1 - p))"

definition binary_cross_entropy_sum :: "tensor \<Rightarrow> tensor \<Rightarrow> py_error + real" where
  "binary_cross_entropy_sum inp target =
     (if shape target \<noteq> shape inp then Inl ValueError
      else if \<not> list_all (\<lambda>p. 0 \<le> p \<and> p \<le> 1) (data inp) then Inl RuntimeError
      else Inr (sum_list (map2 bce_elem (data inp) (data target))))"

text \<open>
  \<^verbatim>\<open>kld = -0.5 * torch.sum(1 + log_var - mean.pow(2) - log_var.exp())\<close>, evaluated left to
  right as Python does.
\<close>

definition kld :: "tensor \<Rightarrow> tensor \<Rightarrow> py_error + real" where
  "kld mean log_var =
     bind_err (tensor_sub (scalar_add 1 log_var) (tensor_pow mean 2)) (\<lambda>a.
     bind_err (tensor_sub a (torch_exp log_var)) (\<lambda>b.
     Inr (- 0.5 * torch_sum b)))"

definition loss_function :: "tensor \<Rightarrow> tensor \<Rightarrow> tensor \<Rightarrow> tensor \<Rightarrow> py_error + real" where
  "loss_function x x_hat mean log_var =
     bind_err (binary_cross_entropy_sum x_hat x) (\<lambda>reproduction_loss.
     bind_err (kld mean log_var) (\<lambda>k.
     Inr (reproduction_loss + k)))"

text \<open>
  The loss as the specification words it: the binary cross-entropy of every element, summed
  over all elements of the batch, plus the closed form
  \<open>KL = -0.5 \<cdot> \<Sum>(1 + log_var - mean\<^sup>2 - exp log_var)\<close>. \<open>textbook_bce\<close> is the cross-entropy
  with unclamped logarithms.
\<close>

definition spec_bce :: "tensor \<Rightarrow> tensor \<Rightarrow> real" where
  "spec_bce x x_hat = (\<Sum>i<prod_list (shape x). bce_elem (data x_hat ! i) (data x ! i))"

definition spec_kl :: "tensor \<Rightarrow> tensor \<Rightarrow> real" where
  "spec_kl mean log_var =
     - 0.5 * (\<Sum>i<prod_list (shape mean).
                1 + data log_var ! i - (data mean ! i)\<^sup>2 - exp (data log_var ! i))"

definition textbook_bce :: "real \<Rightarrow> real \<Rightarrow> real" where
  "textbook_bce p y = - (y * ln p + (1 - y) * ln (1 - p))"

section \<open>The script\<close>

text \<open>
  The state of the run: the model and the optimizer, the random generator, what has been
  printed, what has been sent to the experiment tracker, the image files written, and the
  script variables that are read after the loop that assigns them (\<open>None\<close>: not yet
  assigned). The composed images sent to the tracker are the 10 by 10 montage built by
  \<^verbatim>\<open>view(10, 10, 28, 28).permute(0, 2, 1, 3)\<close> and the two \<^verbatim>\<open>flatten\<close> calls.
\<close>

datatype out_line = PrintStr string | PrintInt nat | PrintEpoch nat real

datatype wandb_event = LogLoss real | LogImage string tensor

record 'o script_state =
  model :: Model
  optimizer :: 'o
  gen :: generator
  stdout :: "out_line list"
  wandb_log :: "wandb_event list"
  files :: "(string \<times> tensor) list"
  overall_loss :: real
  v_batch_idx :: "nat option"
  v_x :: "tensor option"
  v_x_hat :: "tensor option"

definition initial_state :: "Model \<Rightarrow> 'o \<Rightarrow> generator \<Rightarrow> 'o script_state" where
  "initial_state m opt g =
     \<lparr>model = m, optimizer = opt, gen = g, stdout = [], wandb_log = [], files = [],
      overall_loss = 0, v_batch_idx = None, v_x = None, v_x_hat = None\<rparr>"

definition composed_image :: "tensor \<Rightarrow> py_error + tensor" where
  "composed_image t =
     bind_err (tensor_view t [10, 10, 28, 28]) (\<lambda>v.
     Inr \<lparr>shape = [280, 280],
          data = map (\<lambda>n. let i = n div 280; j = n mod 280
                          in data v ! (((i div 28 * 10 + j div 28) * 28 + i mod 28) * 28 + j mod 28))
                     [0..<280 * 280]\<rparr>)"

text \<open>
  One iteration of the training loop. \<open>optimizer_step\<close> stands for
  \<^verbatim>\<open>optimizer.zero_grad(); loss.backward(); optimizer.step()\<close>: from the optimizer's state,
  the current parameters, the batch and the generator the forward pass drew its noise
  from, it gives the optimizer's new state and the updated parameters.
\<close>

definition train_batch ::
  "('o \<Rightarrow> Model \<Rightarrow> tensor \<Rightarrow> generator \<Rightarrow> 'o \<times> Model) \<Rightarrow> 'o script_state \<Rightarrow> nat \<times> tensor
   \<Rightarrow> py_error + 'o script_state" where
  "train_batch optimizer_step s ib =
     (case ib of (batch_idx, xb) \<Rightarrow>
        let out = (if batch_idx mod 100 = 0 then stdout s @ [PrintInt batch_idx] else stdout s) in
        bind_err (tensor_view xb [batch_size, x_dim]) (\<lambda>x.
        bind_err (Model_forward (model s) x (gen s)) (\<lambda>((x_hat, mean, log_var), g').
        bind_err (loss_function x x_hat mean log_var) (\<lambda>loss.
        case optimizer_step (optimizer s) (model s) x (gen s) of (opt', model') \<Rightarrow>
        bind_err (if batch_idx mod log_interval = 0
                  then bind_err (composed_image x) (\<lambda>composed_input.
                       bind_err (composed_image x_hat) (\<lambda>composed_predictions.
                       Inr (wandb_log s @
                            [LogLoss loss,
                             LogImage ''composed_input'' composed_input,
                             LogImage ''composed_predictions'' composed_predictions])))
                  else Inr (wandb_log s)) (\<lambda>log'.
        Inr (s\<lparr>model := model', optimizer := opt', gen := g', stdout := out,
               wandb_log := log', overall_loss := overall_loss s + loss,
               v_batch_idx := Some batch_idx, v_x := Some x, v_x_hat := Some x_hat\<rparr>))))))"

fun train_batches ::
  "('o \<Rightarrow> Model \<Rightarrow> tensor \<Rightarrow> generator \<Rightarrow> 'o \<times> Model) \<Rightarrow> 'o script_state \<Rightarrow> (nat \<times> tensor) list
   \<Rightarrow> py_error + 'o script_state" where
  "train_batches optimizer_step s [] = Inr s"
| "train_batches optimizer_step s (ib # rest) =
     bind_err (train_batch optimizer_step s ib) (\<lambda>s'. train_batches optimizer_step s' rest)"

text \<open>
  One epoch: the batches of the loader in this epoch's order, then the progress line.
  After the loop \<^verbatim>\<open>batch_idx\<close> holds the index of the last batch; it is unbound
  (\<^verbatim>\<open>NameError\<close>) when no loop has run yet, and the division raises
  \<^verbatim>\<open>ZeroDivisionError\<close> when the divisor is 0.
\<close>

definition train_epoch ::
  "('o \<Rightarrow> Model \<Rightarrow> tensor \<Rightarrow> generator \<Rightarrow> 'o \<times> Model) \<Rightarrow> tensor list \<Rightarrow> 'o script_state \<Rightarrow> nat
   \<Rightarrow> py_error + 'o script_state" where
  "train_epoch optimizer_step batches s epoch =
     bind_err (train_batches optimizer_step (s\<lparr>overall_loss := 0\<rparr>) (List.enumerate 0 batches))
       (\<lambda>s1.
     case v_batch_idx s1 of
       None \<Rightarrow> Inl NameError
     | Some batch_idx \<Rightarrow>
         if batch_idx * batch_size = 0 then Inl ZeroDivisionError
         else Inr (s1\<lparr>stdout := stdout s1 @
                     [PrintEpoch (epoch + 1)
                        (overall_loss s1 / real (batch_idx * batch_size))]\<rparr>))"

fun train_epochs ::
  "('o \<Rightarrow> Model \<Rightarrow> tensor \<Rightarrow> generator \<Rightarrow> 'o \<times> Model) \<Rightarrow> (nat \<Rightarrow> tensor list) \<Rightarrow> 'o script_state
   \<Rightarrow> nat list \<Rightarrow> py_error + 'o script_state" where
  "train_epochs optimizer_step train_loader s [] = Inr s"
| "train_epochs optimizer_step train_loader s (epoch # rest) =
     bind_err (train_epoch optimizer_step (train_loader epoch) s epoch)
       (\<lambda>s'. train_epochs optimizer_step train_loader s' rest)"

text \<open>
  The training phase, \<^verbatim>\<open>for epoch in range(epochs)\<close>, with the number of epochs as an
  argument. \<open>train_loader epoch\<close> is the list of batches of that epoch, in its shuffled
  order.
\<close>

definition training ::
  "('o \<Rightarrow> Model \<Rightarrow> tensor \<Rightarrow> generator \<Rightarrow> 'o \<times> Model) \<Rightarrow> nat \<Rightarrow> (nat \<Rightarrow> tensor list)
   \<Rightarrow> 'o script_state \<Rightarrow> py_error + 'o script_state" where
  "training optimizer_step n_epochs train_loader s =
     bind_err (train_epochs optimizer_step train_loader
                 (s\<lparr>stdout := stdout s @ [PrintStr ''Start training VAE...'']\<rparr>) [0..<n_epochs])
       (\<lambda>s'.
     Inr (s'\<lparr>stdout := stdout s' @ [PrintStr ''Finish!!'']\<rparr>))"

text \<open>
  The evaluation loop. Its body ends with \<^verbatim>\<open>break\<close>, so the second equation does not
  continue with the remaining batches.
\<close>

fun eval_batches :: "'o script_state \<Rightarrow> (nat \<times> tensor) list \<Rightarrow> py_error + 'o script_state" where
  "eval_batches s [] = Inr s"
| "eval_batches s ((batch_idx, xb) # rest) =
     (let out = (if batch_idx mod 100 = 0 then stdout s @ [PrintInt batch_idx] else stdout s) in
      bind_err (tensor_view xb [batch_size, x_dim]) (\<lambda>x.
      bind_err (Model_forward (model s) x (gen s)) (\<lambda>((x_hat, mean, log_var), g').
      Inr (s\<lparr>gen := g', stdout := out, v_batch_idx := Some batch_idx,
             v_x := Some x, v_x_hat := Some x_hat\<rparr>))))"

definition evaluation :: "tensor list \<Rightarrow> 'o script_state \<Rightarrow> py_error + 'o script_state" where
  "evaluation test_loader s = eval_batches s (List.enumerate 0 test_loader)"

text \<open>
  \<^verbatim>\<open>save_image(t, name)\<close> writes the images of \<open>t\<close> to the file \<open>name\<close>; the file is
  modelled by the tensor it was written from.
\<close>

definition save_image :: "tensor \<Rightarrow> string \<Rightarrow> 'o script_state \<Rightarrow> 'o script_state" where
  "save_image t name s = s\<lparr>files := files s @ [(name, t)]\<rparr>"

definition save_reconstructions :: "'o script_state \<Rightarrow> py_error + 'o script_state" where
  "save_reconstructions s =
     (case v_x s of
        None \<Rightarrow> Inl NameError
      | Some x \<Rightarrow>
          bind_err (tensor_view x [batch_size, 1, 28, 28]) (\<lambda>a.
          case v_x_hat s of
            None \<Rightarrow> Inl NameError
          | Some x_hat \<Rightarrow>
              bind_err (tensor_view x_hat [batch_size, 1, 28, 28]) (\<lambda>b.
              Inr (save_image b ''reconstructions.png'' (save_image a ''orig_data.png'' s)))))"

definition generate_samples :: "'o script_state \<Rightarrow> py_error + 'o script_state" where
  "generate_samples s =
     (case torch_randn [batch_size, latent_dim] (gen s) of (noise, g') \<Rightarrow>
        bind_err (Decoder_forward (decoder (model s)) noise) (\<lambda>generated_images.
        bind_err (tensor_view generated_images [batch_size, 1, 28, 28]) (\<lambda>c.
        Inr (save_image c ''generated_sample.png'' (s\<lparr>gen := g'\<rparr>)))))"

text \<open>
  The whole run, from the state the script starts in; the script itself runs it with
  \<open>n_epochs = epochs\<close>.
\<close>

definition script ::
  "('o \<Rightarrow> Model \<Rightarrow> tensor \<Rightarrow> generator \<Rightarrow> 'o \<times> Model) \<Rightarrow> nat \<Rightarrow> (nat \<Rightarrow> tensor list) \<Rightarrow> tensor list
   \<Rightarrow> 'o script_state \<Rightarrow> py_error + 'o script_state" where
  "script optimizer_step n_epochs train_loader test_loader s =
     bind_err (training optimizer_step n_epochs train_loader s) (\<lambda>s1.
     bind_err (evaluation test_loader s1) (\<lambda>s2.
     bind_err (save_reconstructions s2) (\<lambda>s3.
     generate_samples s3)))"

text \<open>
  What the data pipeline yields: a batch of \<^verbatim>\<open>batch_size\<close> images of 1 by 28 by 28 pixel
  values in [0,1] (\<^verbatim>\<open>transforms.ToTensor\<close>). MNIST has 60000 training and 10000 test
  images, so no batch of the loaders is shorter.
\<close>

definition mnist_batch :: "tensor \<Rightarrow> bool" where
  "mnist_batch xb =
     (shape xb = [batch_size, 1, 28, 28] \<and> tensor_wf xb \<and>
      list_all (\<lambda>v. 0 \<le> v \<and> v \<le> 1) (data xb))"



section \<open>Example inputs\<close>

definition zeros :: "nat list \<Rightarrow> tensor" where
  "zeros s = \<lparr>shape = s, data = replicate (prod_list s) 0\<rparr>"

definition zero_linear :: "nat \<Rightarrow> nat \<Rightarrow> Linear" where
  "zero_linear n_in n_out = \<lparr>weight = zeros [n_out, n_in], bias = zeros [n_out]\<rparr>"

definition zero_encoder :: "nat \<Rightarrow> nat \<Rightarrow> nat \<Rightarrow> Encoder" where
  "zero_encoder n_in n_hid n_lat =
     \<lparr>FC_input = zero_linear n_in n_hid, FC_mean = zero_linear n_hid n_lat,
      FC_var = zero_linear n_hid n_lat\<rparr>"

definition zero_decoder :: "nat \<Rightarrow> nat \<Rightarrow> nat \<Rightarrow> Decoder" where
  "zero_decoder n_lat n_hid n_out =
     \<lparr>FC_hidden = zero_linear n_lat n_hid, FC_output = zero_linear n_hid n_out\<rparr>"

definition zero_model :: Model where
  "zero_model =
     \<lparr>encoder = zero_encoder x_dim hidden_dim latent_dim,
      decoder = zero_decoder latent_dim hidden_dim x_dim\<rparr>"

definition zero_gen :: generator where
  "zero_gen = (\<lambda>i. 0)"

definition zero_batch :: tensor where
  "zero_batch = zeros [batch_size, 1, 28, 28]"

definition keep_parameters :: "unit \<Rightarrow> Model \<Rightarrow> tensor \<Rightarrow> generator \<Rightarrow> unit \<times> Model" where
  "keep_parameters opt m x g = (opt, m)"

definition zero_state :: "unit script_state" where
  "zero_state = initial_state zero_model () zero_gen"

section \<open>Basic facts\<close>

lemma bind_err_simps [simp]:
  "bind_err (Inl e) f = Inl e"
  "bind_err (Inr v) f = f v"
  by (simp_all add: bind_err_def)

lemma broadcast_rev_same: "broadcast_rev s s = Some s"
  by (induction s) simp_all

lemma broadcast_shapes_same: "broadcast_shapes s s = Some s"
  by (simp add: broadcast_shapes_def broadcast_rev_same)

lemma pad_shape_same [simp]: "pad_shape (length s) s = s"
  by (simp add: pad_shape_def)

lemma concat_chunks_take:
  "a * k \<le> length d \<Longrightarrow>
   concat (map (\<lambda>i. take k (drop (i * k) d)) [0..<a]) = take (a * k) d"
proof (induction a)
  case 0
  then show ?case by simp
next
  case (Suc a)
  then have "concat (map (\<lambda>i. take k (drop (i * k) d)) [0..<a]) = take (a * k) d"
    by simp
  moreover have "take (Suc a * k) d = take (a * k) d @ take k (drop (a * k) d)"
    using take_add [of "a * k" k d] by (simp add: add.commute)
  ultimately show ?case
    by simp
qed

lemma expand_same: "length d = prod_list s \<Longrightarrow> expand s s d = d"
proof (induction s arbitrary: d)
  case Nil
  then show ?case by simp
next
  case (Cons a s)
  have chunk: "expand s s (take (prod_list s) (drop (i * prod_list s) d))
               = take (prod_list s) (drop (i * prod_list s) d)" if "i < a" for i
  proof (rule Cons.IH)
    from that have "Suc i * prod_list s \<le> a * prod_list s"
      by (intro mult_le_mono1) simp
    with Cons.prems show "length (take (prod_list s) (drop (i * prod_list s) d)) = prod_list s"
      by simp
  qed
  have "expand (a # s) (a # s) d
        = concat (map (\<lambda>i. expand s s (take (prod_list s) (drop (i * prod_list s) d))) [0..<a])"
    by simp
  also have "\<dots> = concat (map (\<lambda>i. take (prod_list s) (drop (i * prod_list s) d)) [0..<a])"
    by (rule arg_cong [where f = concat], rule map_cong [OF refl]) (simp add: chunk)
  also have "\<dots> = take (a * prod_list s) d"
    using Cons.prems by (intro concat_chunks_take) simp
  also have "\<dots> = d"
    using Cons.prems by simp
  finally show ?case .
qed

lemma broadcast_op_same:
  assumes "shape x = shape y" "tensor_wf x" "tensor_wf y"
  shows "broadcast_op f x y = Inr \<lparr>shape = shape x, data = map2 f (data x) (data y)\<rparr>"
  using assms
  by (simp add: broadcast_op_def broadcast_shapes_same expand_same tensor_wf_def)

lemma tmap_shape [simp]: "shape (tmap f t) = shape t"
  by (simp add: tmap_def)

lemma tmap_data [simp]: "data (tmap f t) = map f (data t)"
  by (simp add: tmap_def)

lemma tmap_wf [simp]: "tensor_wf (tmap f t) = tensor_wf t"
  by (simp add: tensor_wf_def)

lemma zeros_wf [simp]: "tensor_wf (zeros s)"
  by (simp add: tensor_wf_def zeros_def)

lemma zeros_shape [simp]: "shape (zeros s) = s"
  by (simp add: zeros_def)

lemma zeros_data [simp]: "data (zeros s) = replicate (prod_list s) 0"
  by (simp add: zeros_def)

lemma kld_same_shape:
  assumes "shape mean = shape log_var" "tensor_wf mean" "tensor_wf log_var"
  shows "kld mean log_var =
         Inr (- 0.5 * sum_list (map2 (\<lambda>l m. 1 + l - m\<^sup>2 - exp l) (data log_var) (data mean)))"
proof -
  have len: "length (data mean) = length (data log_var)"
    using assms by (simp add: tensor_wf_def)
  have a: "tensor_sub (scalar_add 1 log_var) (tensor_pow mean 2)
           = Inr \<lparr>shape = shape log_var,
                  data = map2 (-) (map (\<lambda>v. 1 + v) (data log_var)) (map (\<lambda>v. v\<^sup>2) (data mean))\<rparr>"
    using assms
    by (simp add: tensor_sub_def scalar_add_def tensor_pow_def broadcast_op_same)
  have wf: "tensor_wf \<lparr>shape = shape log_var,
                  data = map2 (-) (map (\<lambda>v. 1 + v) (data log_var)) (map (\<lambda>v. v\<^sup>2) (data mean))\<rparr>"
    using assms len by (simp add: tensor_wf_def)
  have b: "map2 (-) (map2 (-) (map (\<lambda>v. 1 + v) (data log_var)) (map (\<lambda>v. v\<^sup>2) (data mean)))
                    (map exp (data log_var))
           = map2 (\<lambda>l m. 1 + l - m\<^sup>2 - exp l) (data log_var) (data mean)"
    using len by (intro nth_equalityI) simp_all
  have c: "tensor_sub \<lparr>shape = shape log_var,
                  data = map2 (-) (map (\<lambda>v. 1 + v) (data log_var)) (map (\<lambda>v. v\<^sup>2) (data mean))\<rparr>
             (torch_exp log_var)
           = Inr \<lparr>shape = shape log_var,
                  data = map2 (\<lambda>l m. 1 + l - m\<^sup>2 - exp l) (data log_var) (data mean)\<rparr>"
    unfolding tensor_sub_def torch_exp_def
    using wf assms(3) by (subst broadcast_op_same) (simp_all add: b)
  show ?thesis
    unfolding kld_def a by (simp add: c torch_sum_def)
qed

section \<open>The loss function: its value, its sign, its zero\<close>

lemma sigmoid_pos: "0 < sigmoid v"
  by (simp add: sigmoid_def add_pos_pos)

lemma sigmoid_less_one: "sigmoid v < 1"
  by (simp add: sigmoid_def add_pos_pos)

lemma clamped_log_nonpos: "p \<le> 1 \<Longrightarrow> clamped_log p \<le> 0"
  by (simp add: clamped_log_def)

lemma clamped_log_neg: "p < 1 \<Longrightarrow> clamped_log p < 0"
  by (simp add: clamped_log_def)


lemma bce_elem_pos:
  assumes "0 < p" "p < 1" "0 \<le> y" "y \<le> 1"
  shows "0 < bce_elem p y"
proof (cases "y = 0")
  case True
  then show ?thesis
    using assms clamped_log_neg [of "1 - p"] by (simp add: bce_elem_def)
next
  case False
  then have "y * clamped_log p < 0"
    using assms clamped_log_neg [of p] by (simp add: mult_pos_neg)
  moreover have "(1 - y) * clamped_log (1 - p) \<le> 0"
    using assms by (intro mult_nonneg_nonpos clamped_log_nonpos) simp_all
  ultimately show ?thesis
    by (simp add: bce_elem_def)
qed

lemma kl_term_nonpos: "1 + l - m\<^sup>2 - exp l \<le> (0::real)"
proof -
  have "1 + l \<le> exp l"
    by (rule exp_ge_add_one_self)
  moreover have "0 \<le> m\<^sup>2"
    by simp
  ultimately show ?thesis
    by linarith
qed

lemma sum_list_map2_nth:
  "length xs = length ys \<Longrightarrow>
   sum_list (map2 f xs ys) = (\<Sum>i<length xs. f (xs ! i) (ys ! i))"
proof -
  assume len: "length xs = length ys"
  have "sum_list (map2 f xs ys) = (\<Sum>i<length (map2 f xs ys). map2 f xs ys ! i)"
    by (simp add: sum_list_sum_nth atLeast0LessThan)
  also have "\<dots> = (\<Sum>i<length xs. f (xs ! i) (ys ! i))"
    using len by (intro sum.cong) simp_all
  finally show ?thesis .
qed

lemma clamped_log_ln: "exp (- 100) \<le> p \<Longrightarrow> clamped_log p = ln p"
proof -
  assume a: "exp (- 100) \<le> p"
  have pos: "0 < p"
    using a exp_gt_zero [of "- 100 :: real"] by linarith
  then have "ln (exp (- 100)) \<le> ln p"
    using a by (subst ln_le_cancel_iff) simp_all
  then show ?thesis
    using pos by (simp add: clamped_log_def)
qed

lemma bce_elem_textbook:
  "exp (- 100) \<le> p \<Longrightarrow> p \<le> 1 - exp (- 100) \<Longrightarrow> bce_elem p y = textbook_bce p y"
  by (simp add: bce_elem_def textbook_bce_def clamped_log_ln)


lemma sum_list_nonpos_all:
  "list_all (\<lambda>v. v \<le> (0::real)) vs \<Longrightarrow> sum_list vs \<le> 0"
  by (induction vs) auto


lemma kld_nonneg:
  assumes "shape mean = shape log_var" "tensor_wf mean" "tensor_wf log_var"
  shows "\<exists>k. kld mean log_var = Inr k \<and> 0 \<le> k"
proof -
  have "list_all (\<lambda>v. v \<le> 0) (map2 (\<lambda>l m. 1 + l - m\<^sup>2 - exp l) (data log_var) (data mean))"
    using kl_term_nonpos by (auto simp: list_all_iff)
  then have "sum_list (map2 (\<lambda>l m. 1 + l - m\<^sup>2 - exp l) (data log_var) (data mean)) \<le> 0"
    by (rule sum_list_nonpos_all)
  then show ?thesis
    by (simp add: kld_same_shape [OF assms])
qed


text \<open>
  Claim C6. The KL-divergence term of the loss is exactly 0 when mean and log-variance are 0
  elementwise, whatever the shape: \<open>kld\<close> returns 0, and the loss is then the summed binary
  cross-entropy alone.
\<close>

theorem kl_zero_at_prior:
  "kld (zeros s) (zeros s) = Inr 0 \<and>
   loss_function x x_hat (zeros s) (zeros s) = binary_cross_entropy_sum x_hat x"
proof -
  have k: "kld (zeros s) (zeros s) = Inr 0"
    by (simp add: kld_same_shape zip_replicate sum_list_replicate)
  have "bind_err r (\<lambda>v. Inr (v + 0)) = r" for r :: "py_error + real"
    by (cases r) simp_all
  with k show ?thesis
    by (simp add: loss_function_def)
qed

text \<open>The claim at the shape of the script's latent batches, 100 by 20.\<close>

theorem kl_zero_at_prior_witness:
  "kld (zeros [100, 20]) (zeros [100, 20]) = Inr 0"
  using kl_zero_at_prior [of "[100, 20]"] by simp



lemma exp_m100_le_half: "exp (- 100) \<le> (1 / 2 :: real)"
proof -
  have "(2::real) \<le> exp 1"
    using exp_ge_add_one_self [of "1::real"] by simp
  then have "exp (- 1) \<le> (1 / 2 :: real)"
    by (simp add: exp_minus field_simps)
  moreover have "exp (- 100) \<le> exp (- 1 :: real)"
    by simp
  ultimately show ?thesis
    by linarith
qed

text \<open>
  Claim C1. The loss function returns the binary cross-entropy between reconstruction and
  original, summed (not averaged) over all elements of the batch, plus the closed-form KL
  divergence \<open>-0.5 \<cdot> \<Sum>(1 + log_var - mean\<^sup>2 - exp log_var)\<close> summed over all elements. The
  cross-entropy of an element is the one torch computes, with each logarithm clamped below
  at -100; it is the textbook cross-entropy whenever every reconstruction value lies in
  \<open>[exp (-100), 1 - exp (-100)]\<close>.
\<close>

theorem loss_function_formula:
  assumes "shape x_hat = shape x" "tensor_wf x" "tensor_wf x_hat"
      and "list_all (\<lambda>p. 0 \<le> p \<and> p \<le> 1) (data x_hat)"
      and "shape log_var = shape mean" "tensor_wf mean" "tensor_wf log_var"
  shows "loss_function x x_hat mean log_var = Inr (spec_bce x x_hat + spec_kl mean log_var) \<and>
         (list_all (\<lambda>p. exp (- 100) \<le> p \<and> p \<le> 1 - exp (- 100)) (data x_hat) \<longrightarrow>
          spec_bce x x_hat
          = (\<Sum>i<prod_list (shape x). textbook_bce (data x_hat ! i) (data x ! i)))"
proof -
  have lx: "length (data x_hat) = length (data x)" "length (data x) = prod_list (shape x)"
    using assms(1-3) by (simp_all add: tensor_wf_def)
  have lm: "length (data log_var) = length (data mean)"
           "length (data log_var) = prod_list (shape mean)"
    using assms(5-7) by (simp_all add: tensor_wf_def)
  have bce: "binary_cross_entropy_sum x_hat x = Inr (spec_bce x x_hat)"
    using assms(1,4) lx
    by (simp add: binary_cross_entropy_sum_def spec_bce_def sum_list_map2_nth)
  have kl: "kld mean log_var = Inr (spec_kl mean log_var)"
    using lm by (simp add: kld_same_shape assms(5-7) spec_kl_def sum_list_map2_nth)
  have tb: "spec_bce x x_hat
            = (\<Sum>i<prod_list (shape x). textbook_bce (data x_hat ! i) (data x ! i))"
    if r: "list_all (\<lambda>p. exp (- 100) \<le> p \<and> p \<le> 1 - exp (- 100)) (data x_hat)"
    unfolding spec_bce_def
  proof (rule sum.cong [OF refl])
    fix i assume "i \<in> {..<prod_list (shape x)}"
    then have "data x_hat ! i \<in> set (data x_hat)"
      using lx by simp
    with r have "exp (- 100) \<le> data x_hat ! i" "data x_hat ! i \<le> 1 - exp (- 100)"
      by (auto simp: list_all_iff)
    then show "bce_elem (data x_hat ! i) (data x ! i) = textbook_bce (data x_hat ! i) (data x ! i)"
      by (rule bce_elem_textbook)
  qed
  show ?thesis
    using tb by (simp add: loss_function_def bce kl)
qed

text \<open>The claim at a batch of two pixels with reconstruction 1/2.\<close>

theorem loss_function_formula_witness:
  "tensor_wf \<lparr>shape = [1, 2], data = [0, 1]\<rparr> \<and>
   tensor_wf \<lparr>shape = [1, 2], data = [1 / 2, 1 / 2]\<rparr> \<and>
   list_all (\<lambda>p. exp (- 100) \<le> p \<and> p \<le> 1 - exp (- 100))
     (data \<lparr>shape = [1, 2], data = [1 / 2, 1 / 2]\<rparr>) \<and>
   loss_function \<lparr>shape = [1, 2], data = [0, 1]\<rparr> \<lparr>shape = [1, 2], data = [1 / 2, 1 / 2]\<rparr>
     (zeros [1, 1]) (zeros [1, 1])
   = Inr (spec_bce \<lparr>shape = [1, 2], data = [0, 1]\<rparr> \<lparr>shape = [1, 2], data = [1 / 2, 1 / 2]\<rparr>
          + spec_kl (zeros [1, 1]) (zeros [1, 1])) \<and>
   spec_bce \<lparr>shape = [1, 2], data = [0, 1]\<rparr> \<lparr>shape = [1, 2], data = [1 / 2, 1 / 2]\<rparr>
   = (\<Sum>i<prod_list (shape \<lparr>shape = [1, 2], data = [0 :: real, 1]\<rparr>).
        textbook_bce (data \<lparr>shape = [1, 2], data = [1 / 2, 1 / 2]\<rparr> ! i)
                     (data \<lparr>shape = [1, 2], data = [0, 1]\<rparr> ! i))"
proof -
  have r: "exp (- 100) \<le> (1 / 2 :: real)" "(1 / 2 :: real) \<le> 1 - exp (- 100)"
    using exp_m100_le_half by simp_all
  show ?thesis
    using r loss_function_formula [of "\<lparr>shape = [1, 2], data = [1 / 2, 1 / 2]\<rparr>"
        "\<lparr>shape = [1, 2], data = [0, 1]\<rparr>" "zeros [1, 1]" "zeros [1, 1]"]
    by (simp add: tensor_wf_def)
qed


section \<open>The forward passes\<close>

lemma Linear_forward_ok:
  assumes "Linear_wf L n_in n_out" "shape x = pre @ [n_in]"
  shows "\<exists>y. Linear_forward L x = Inr y \<and> shape y = pre @ [n_out] \<and> tensor_wf y"
  using assms
  by (simp add: Linear_forward_def Linear_wf_def tensor_wf_def length_concat comp_def
      sum_list_triv)

lemma torch_relu_shape [simp]: "shape (torch_relu t) = shape t"
  by (simp add: torch_relu_def)

lemma torch_relu_wf [simp]: "tensor_wf (torch_relu t) = tensor_wf t"
  by (simp add: torch_relu_def)

lemma reparameterization_same:
  assumes "shape mean = shape std" "tensor_wf mean" "tensor_wf std"
  shows "reparameterization mean std g =
         Inr (\<lparr>shape = shape mean,
               data = map2 (+) (data mean)
                        (map2 (*) (data std) (map g [0..<prod_list (shape std)]))\<rparr>,
              (\<lambda>i. g (i + prod_list (shape std))))"
proof -
  let ?eps = "\<lparr>shape = shape std, data = map g [0..<prod_list (shape std)]\<rparr>"
  have eps: "randn_like std g = (?eps, (\<lambda>i. g (i + prod_list (shape std))))"
    by (simp add: randn_like_def torch_randn_def)
  have wf_eps: "tensor_wf ?eps"
    by (simp add: tensor_wf_def)
  have m: "tensor_mul std ?eps
           = Inr \<lparr>shape = shape std, data = map2 (*) (data std) (data ?eps)\<rparr>"
    unfolding tensor_mul_def using assms(3) wf_eps by (subst broadcast_op_same) simp_all
  have wf_se: "tensor_wf \<lparr>shape = shape std, data = map2 (*) (data std) (data ?eps)\<rparr>"
    using assms(3) by (simp add: tensor_wf_def)
  have a: "tensor_add mean \<lparr>shape = shape std, data = map2 (*) (data std) (data ?eps)\<rparr>
           = Inr \<lparr>shape = shape mean,
                  data = map2 (+) (data mean) (map2 (*) (data std) (data ?eps))\<rparr>"
    unfolding tensor_add_def using assms(1,2) wf_se by (subst broadcast_op_same) simp_all
  show ?thesis
    unfolding reparameterization_def eps using m a by simp
qed

lemma Encoder_forward_ok:
  assumes "Encoder_wf e n_in n_hid n_lat" "shape x = pre @ [n_in]"
  shows "\<exists>z mean log_var.
           Encoder_forward e x g
             = Inr ((z, mean, log_var), (\<lambda>i. g (i + prod_list pre * n_lat))) \<and>
           shape z = pre @ [n_lat] \<and> shape mean = pre @ [n_lat] \<and>
           shape log_var = pre @ [n_lat] \<and>
           tensor_wf z \<and> tensor_wf mean \<and> tensor_wf log_var \<and>
           data z = map2 (+) (data mean)
                      (map2 (*) (map (\<lambda>v. exp (0.5 * v)) (data log_var))
                                (map g [0..<prod_list pre * n_lat]))"
proof -
  from assms obtain a where a: "Linear_forward (FC_input e) x = Inr a"
      "shape a = pre @ [n_hid]"
    using Linear_forward_ok [of "FC_input e" n_in n_hid x pre]
    by (auto simp: Encoder_wf_def)
  from assms obtain mean where mean: "Linear_forward (FC_mean e) (torch_relu a) = Inr mean"
      "shape mean = pre @ [n_lat]" "tensor_wf mean"
    using Linear_forward_ok [of "FC_mean e" n_hid n_lat "torch_relu a" pre] a
    by (auto simp: Encoder_wf_def)
  from assms obtain log_var where lv: "Linear_forward (FC_var e) (torch_relu a) = Inr log_var"
      "shape log_var = pre @ [n_lat]" "tensor_wf log_var"
    using Linear_forward_ok [of "FC_var e" n_hid n_lat "torch_relu a" pre] a
    by (auto simp: Encoder_wf_def)
  let ?std = "torch_exp (scalar_mul 0.5 log_var)"
  have std: "shape ?std = pre @ [n_lat]" "tensor_wf ?std"
            "data ?std = map (\<lambda>v. exp (0.5 * v)) (data log_var)"
    using lv by (simp_all add: torch_exp_def scalar_mul_def comp_def)
  have r: "reparameterization mean ?std g =
           Inr (\<lparr>shape = shape mean,
                 data = map2 (+) (data mean)
                          (map2 (*) (data ?std) (map g [0..<prod_list (shape ?std)]))\<rparr>,
                (\<lambda>i. g (i + prod_list (shape ?std))))"
    using mean std by (intro reparameterization_same) simp_all
  have len: "length (data mean) = prod_list pre * n_lat"
            "length (data log_var) = prod_list pre * n_lat"
    using mean lv by (simp_all add: tensor_wf_def)
  let ?z = "\<lparr>shape = shape mean,
             data = map2 (+) (data mean)
                      (map2 (*) (data ?std) (map g [0..<prod_list (shape ?std)]))\<rparr>"
  have ef: "Encoder_forward e x g
            = Inr ((?z, mean, log_var), (\<lambda>i. g (i + prod_list (shape ?std))))"
    unfolding Encoder_forward_def a mean lv Let_def bind_err_simps r by simp
  have "Encoder_forward e x g
          = Inr ((?z, mean, log_var), (\<lambda>i. g (i + prod_list pre * n_lat))) \<and>
        shape ?z = pre @ [n_lat] \<and> shape mean = pre @ [n_lat] \<and>
        shape log_var = pre @ [n_lat] \<and>
        tensor_wf ?z \<and> tensor_wf mean \<and> tensor_wf log_var \<and>
        data ?z = map2 (+) (data mean)
                    (map2 (*) (map (\<lambda>v. exp (0.5 * v)) (data log_var))
                              (map g [0..<prod_list pre * n_lat]))"
    using ef mean lv len std by (simp add: tensor_wf_def)
  then show ?thesis
    by blast
qed

lemma Decoder_forward_range:
  "Decoder_forward d z = Inr y \<Longrightarrow> list_all (\<lambda>v. 0 < v \<and> v < 1) (data y)"
  by (auto simp: Decoder_forward_def bind_err_def Let_def torch_sigmoid_def list_all_iff
      sigmoid_pos sigmoid_less_one split: sum.splits)

lemma Decoder_forward_ok:
  assumes "Decoder_wf d n_lat n_hid n_out" "shape z = pre @ [n_lat]"
  shows "\<exists>y. Decoder_forward d z = Inr y \<and> shape y = pre @ [n_out] \<and> tensor_wf y"
proof -
  from assms obtain a where a: "Linear_forward (FC_hidden d) z = Inr a"
      "shape a = pre @ [n_hid]"
    using Linear_forward_ok [of "FC_hidden d" n_lat n_hid z pre]
    by (auto simp: Decoder_wf_def)
  from assms obtain b where b: "Linear_forward (FC_output d) (torch_relu a) = Inr b"
      "shape b = pre @ [n_out]" "tensor_wf b"
    using Linear_forward_ok [of "FC_output d" n_hid n_out "torch_relu a" pre] a
    by (auto simp: Decoder_wf_def)
  show ?thesis
    unfolding Decoder_forward_def a b using b by (simp add: Let_def torch_sigmoid_def)
qed

lemma Model_forward_ok:
  assumes "Model_wf m" "shape x = pre @ [x_dim]"
  shows "\<exists>x_hat mean log_var.
           Model_forward m x g
             = Inr ((x_hat, mean, log_var), (\<lambda>i. g (i + prod_list pre * latent_dim))) \<and>
           shape x_hat = pre @ [x_dim] \<and> shape mean = pre @ [latent_dim] \<and>
           shape log_var = pre @ [latent_dim] \<and>
           tensor_wf x_hat \<and> tensor_wf mean \<and> tensor_wf log_var \<and>
           list_all (\<lambda>v. 0 < v \<and> v < 1) (data x_hat)"
proof -
  from assms obtain z mean log_var where
    e: "Encoder_forward (encoder m) x g
          = Inr ((z, mean, log_var), (\<lambda>i. g (i + prod_list pre * latent_dim)))"
      "shape z = pre @ [latent_dim]" "shape mean = pre @ [latent_dim]"
      "shape log_var = pre @ [latent_dim]" "tensor_wf mean" "tensor_wf log_var"
    using Encoder_forward_ok [of "encoder m" x_dim hidden_dim latent_dim x pre g]
    by (auto simp: Model_wf_def)
  from assms e obtain x_hat where
    d: "Decoder_forward (decoder m) z = Inr x_hat" "shape x_hat = pre @ [x_dim]"
      "tensor_wf x_hat"
    using Decoder_forward_ok [of "decoder m" latent_dim hidden_dim x_dim z pre]
    by (auto simp: Model_wf_def)
  show ?thesis
    unfolding Model_forward_def e using d e Decoder_forward_range [OF d(1)] by simp
qed

lemma zero_linear_wf [simp]: "Linear_wf (zero_linear n_in n_out) n_in n_out"
  by (simp add: Linear_wf_def zero_linear_def)

lemma zero_encoder_wf [simp]: "Encoder_wf (zero_encoder a b c) a b c"
  by (simp add: Encoder_wf_def zero_encoder_def)

lemma zero_decoder_wf [simp]: "Decoder_wf (zero_decoder a b c) a b c"
  by (simp add: Decoder_wf_def zero_decoder_def)

lemma zero_model_wf [simp]: "Model_wf zero_model"
  by (simp add: Model_wf_def zero_model_def)

text \<open>
  Claim C2. For the model the script builds and an input batch of shape \<open>[n, 784]\<close>, the
  encoder returns a sampled latent, a mean and a log-variance of shape \<open>[n, 20]\<close> each, and
  one forward pass of the composite model returns a reconstruction of shape \<open>[n, 784]\<close>
  with a mean and a log-variance of shape \<open>[n, 20]\<close>; each tensor has as many elements as
  its shape says. The batch of 100 images is the case \<open>n = 100\<close>.
\<close>

theorem encoder_model_shapes:
  assumes "Model_wf m" "shape x = [n, x_dim]"
  shows "(\<exists>z mean log_var g'.
            Encoder_forward (encoder m) x g = Inr ((z, mean, log_var), g') \<and>
            shape z = [n, latent_dim] \<and> shape mean = [n, latent_dim] \<and>
            shape log_var = [n, latent_dim] \<and>
            length (data z) = n * latent_dim \<and> length (data mean) = n * latent_dim \<and>
            length (data log_var) = n * latent_dim) \<and>
         (\<exists>x_hat mean log_var g'.
            Model_forward m x g = Inr ((x_hat, mean, log_var), g') \<and>
            shape x_hat = [n, x_dim] \<and> shape mean = [n, latent_dim] \<and>
            shape log_var = [n, latent_dim] \<and>
            length (data x_hat) = n * x_dim \<and> length (data mean) = n * latent_dim \<and>
            length (data log_var) = n * latent_dim) \<and>
         x_dim = 784 \<and> latent_dim = 20"
proof -
  have e: "Encoder_wf (encoder m) x_dim hidden_dim latent_dim"
    using assms(1) by (simp add: Model_wf_def)
  have x: "shape x = [n] @ [x_dim]"
    using assms(2) by simp
  have enc: "\<exists>z mean log_var g'.
            Encoder_forward (encoder m) x g = Inr ((z, mean, log_var), g') \<and>
            shape z = [n, latent_dim] \<and> shape mean = [n, latent_dim] \<and>
            shape log_var = [n, latent_dim] \<and>
            length (data z) = n * latent_dim \<and> length (data mean) = n * latent_dim \<and>
            length (data log_var) = n * latent_dim"
    using Encoder_forward_ok [OF e x, of g] by (fastforce simp: tensor_wf_def)
  have mod: "\<exists>x_hat mean log_var g'.
            Model_forward m x g = Inr ((x_hat, mean, log_var), g') \<and>
            shape x_hat = [n, x_dim] \<and> shape mean = [n, latent_dim] \<and>
            shape log_var = [n, latent_dim] \<and>
            length (data x_hat) = n * x_dim \<and> length (data mean) = n * latent_dim \<and>
            length (data log_var) = n * latent_dim"
    using Model_forward_ok [OF assms(1) x, of g] by (fastforce simp: tensor_wf_def)
  show ?thesis
    using enc mod by (simp add: x_dim_def latent_dim_def)
qed

text \<open>
  The claim at a batch of 100 images for a model with all parameters 0.
\<close>

theorem encoder_model_shapes_witness:
  "Model_wf zero_model \<and> shape (zeros [100, 784]) = [100, x_dim] \<and>
   (\<exists>x_hat mean log_var g'.
      Model_forward zero_model (zeros [100, 784]) zero_gen = Inr ((x_hat, mean, log_var), g') \<and>
      shape x_hat = [100, 784] \<and> shape mean = [100, 20] \<and> shape log_var = [100, 20])"
proof -
  have h1: "Model_wf zero_model"
    by (rule zero_model_wf)
  have h2: "shape (zeros [100, 784]) = [100, x_dim]"
    unfolding zeros_shape x_dim_def by (rule refl)
  note r = encoder_model_shapes [OF h1 h2, of zero_gen]
  from r [THEN conjunct2, THEN conjunct1] obtain x_hat mean log_var g' where
    f: "Model_forward zero_model (zeros [100, 784]) zero_gen = Inr ((x_hat, mean, log_var), g')"
    and s: "shape x_hat = [100, x_dim]" "shape mean = [100, latent_dim]"
      "shape log_var = [100, latent_dim]"
    by blast
  from r have d: "x_dim = 784" "latent_dim = 20"
    by blast+
  have "shape x_hat = [100, 784]" "shape mean = [100, 20]" "shape log_var = [100, 20]"
    using s unfolding d by blast+
  with f h1 h2 show ?thesis
    by blast
qed





text \<open>
  Claim C10. In exact arithmetic every element \<open>p\<close> of an output of the decoder is strictly
  between 0 and 1, so both logarithms of the binary cross-entropy, of \<open>p\<close> and of \<open>1 - p\<close>,
  have a positive argument (the branch for the logarithm of 0 is never taken), and the
  cross-entropy of a decoder output against a target of its shape returns a value.
\<close>

theorem decoder_output_logs_defined:
  "(\<forall>x_hat. Decoder_forward d z = Inr x_hat \<longrightarrow>
      list_all (\<lambda>p. 0 < p \<and> p < 1) (data x_hat) \<and>
      list_all (\<lambda>p. 0 < p \<and> 0 < 1 - p \<and> clamped_log p = max (ln p) (- 100) \<and>
                    clamped_log (1 - p) = max (ln (1 - p)) (- 100)) (data x_hat) \<and>
      (\<forall>x. shape x = shape x_hat \<longrightarrow> (\<exists>v. binary_cross_entropy_sum x_hat x = Inr v))) \<and>
   (Decoder_wf d n_lat n_hid n_out \<and> shape z = [n, n_lat] \<longrightarrow>
      (\<exists>x_hat. Decoder_forward d z = Inr x_hat))"
proof (intro conjI allI impI)
  fix x_hat assume d: "Decoder_forward d z = Inr x_hat"
  then show r: "list_all (\<lambda>p. 0 < p \<and> p < 1) (data x_hat)"
    by (rule Decoder_forward_range)
  then show "list_all (\<lambda>p. 0 < p \<and> 0 < 1 - p \<and> clamped_log p = max (ln p) (- 100) \<and>
                    clamped_log (1 - p) = max (ln (1 - p)) (- 100)) (data x_hat)"
    by (auto simp: list_all_iff clamped_log_def)
  fix x :: tensor assume "shape x = shape x_hat"
  moreover have "list_all (\<lambda>p. 0 \<le> p \<and> p \<le> 1) (data x_hat)"
    using r by (auto simp: list_all_iff intro: less_imp_le)
  ultimately show "\<exists>v. binary_cross_entropy_sum x_hat x = Inr v"
    by (simp add: binary_cross_entropy_sum_def)
next
  assume a: "Decoder_wf d n_lat n_hid n_out \<and> shape z = [n, n_lat]"
  then have "shape z = [n] @ [n_lat]"
    by simp
  with a show "\<exists>x_hat. Decoder_forward d z = Inr x_hat"
    using Decoder_forward_ok [of d n_lat n_hid n_out z "[n]"] by blast
qed

text \<open>
  The claim at a decoder with all parameters 0 and a batch of two latents.
\<close>

theorem decoder_output_logs_defined_witness:
  "Decoder_wf (zero_decoder 1 2 3) 1 2 3 \<and> shape (zeros [2, 1]) = [2, 1] \<and>
   (\<exists>x_hat. Decoder_forward (zero_decoder 1 2 3) (zeros [2, 1]) = Inr x_hat \<and>
        list_all (\<lambda>p. 0 < p \<and> p < 1) (data x_hat) \<and>
        (\<exists>v. binary_cross_entropy_sum x_hat x_hat = Inr v))"
proof -
  have h: "Decoder_wf (zero_decoder 1 2 3) 1 2 3 \<and> shape (zeros [2, 1]) = [2, 1]"
    by simp
  note r = decoder_output_logs_defined [where d = "zero_decoder 1 2 3" and z = "zeros [2, 1]"
      and n_lat = 1 and n_hid = 2 and n_out = 3 and n = 2]
  from r [THEN conjunct2, rule_format, OF h]
  obtain x_hat where
    y: "Decoder_forward (zero_decoder 1 2 3) (zeros [2, 1]) = Inr x_hat"
    by blast
  note c = r [THEN conjunct1, rule_format, OF y]
  have "list_all (\<lambda>p. 0 < p \<and> p < 1) (data x_hat)"
    using c by simp
  moreover have "\<exists>v. binary_cross_entropy_sum x_hat x_hat = Inr v"
    using c [THEN conjunct2, THEN conjunct2, rule_format, of x_hat] by simp
  ultimately show ?thesis
    using h y by blast
qed

section \<open>The training loop\<close>

lemma numel_image_batch: "prod_list [batch_size, 1, 28, 28] = batch_size * x_dim"
  by (simp add: batch_size_def x_dim_def)

lemma numel_montage: "prod_list [10, 10, 28, 28] = batch_size * x_dim"
  by (simp add: batch_size_def x_dim_def)

lemma tensor_view_ok:
  "prod_list s = prod_list (shape t) \<Longrightarrow> tensor_view t s = Inr \<lparr>shape = s, data = data t\<rparr>"
  by (simp add: tensor_view_def)

lemma mnist_batch_numel:
  assumes "mnist_batch xb"
  shows "prod_list (shape xb) = batch_size * x_dim" "length (data xb) = batch_size * x_dim"
  using assms by (simp_all add: mnist_batch_def tensor_wf_def batch_size_def x_dim_def)

lemma view_mnist_batch:
  "mnist_batch xb \<Longrightarrow>
   tensor_view xb [batch_size, x_dim] = Inr \<lparr>shape = [batch_size, x_dim], data = data xb\<rparr>"
  by (rule tensor_view_ok) (simp add: mnist_batch_numel)

lemma composed_image_ok:
  "prod_list (shape t) = batch_size * x_dim \<Longrightarrow> \<exists>c. composed_image t = Inr c"
  unfolding composed_image_def
  by (subst tensor_view_ok) (simp_all only: numel_montage bind_err_simps, blast)

lemma sum_list_pos_all:
  "vs \<noteq> [] \<Longrightarrow> list_all (\<lambda>v. (0::real) < v) vs \<Longrightarrow> 0 < sum_list vs"
proof (induction vs)
  case Nil
  then show ?case by simp
next
  case (Cons v vs)
  then show ?case
    by (cases vs) (auto intro: add_pos_pos)
qed

lemma loss_function_pos:
  assumes "shape x_hat = shape x" "length (data x_hat) = length (data x)" "data x \<noteq> []"
      and "list_all (\<lambda>y. 0 \<le> y \<and> y \<le> 1) (data x)"
      and "list_all (\<lambda>p. 0 < p \<and> p < 1) (data x_hat)"
      and "shape mean = shape log_var" "tensor_wf mean" "tensor_wf log_var"
  shows "\<exists>v. loss_function x x_hat mean log_var = Inr v \<and> 0 < v"
proof -
  have range: "list_all (\<lambda>p. 0 \<le> p \<and> p \<le> 1) (data x_hat)"
    using assms(5) by (auto simp: list_all_iff intro: less_imp_le)
  obtain k where k: "kld mean log_var = Inr k" "0 \<le> k"
    using kld_nonneg [OF assms(6-8)] by blast
  have ne: "map2 bce_elem (data x_hat) (data x) \<noteq> []"
    using assms(2,3) by (cases "data x_hat"; cases "data x") simp_all
  have "list_all (\<lambda>v. 0 < v) (map2 bce_elem (data x_hat) (data x))"
    using assms(4,5)
    by (auto simp: list_all_iff intro!: bce_elem_pos dest: set_zip_leftD set_zip_rightD)
  with ne have "0 < sum_list (map2 bce_elem (data x_hat) (data x))"
    by (rule sum_list_pos_all)
  with k range assms(1) show ?thesis
    by (simp add: loss_function_def binary_cross_entropy_sum_def)
qed

lemma mnist_batch_nonempty: "mnist_batch xb \<Longrightarrow> data xb \<noteq> []"
proof -
  assume "mnist_batch xb"
  then have "length (data xb) = batch_size * x_dim"
    by (rule mnist_batch_numel)
  then show ?thesis
    by (auto simp: batch_size_def x_dim_def)
qed

lemma train_batch_ok:
  assumes step: "\<forall>opt m x g. Model_wf m \<longrightarrow> Model_wf (snd (optimizer_step opt m x g))"
      and wf: "Model_wf (model s)" and xb: "mnist_batch xb"
  shows "\<exists>s'. train_batch optimizer_step s (i, xb) = Inr s' \<and> Model_wf (model s') \<and>
              v_batch_idx s' = Some i \<and> overall_loss s < overall_loss s' \<and>
              files s' = files s"
proof -
  let ?x = "\<lparr>shape = [batch_size, x_dim], data = data xb\<rparr>"
  have view: "tensor_view xb [batch_size, x_dim] = Inr ?x"
    using xb by (rule view_mnist_batch)
  have lenx: "length (data xb) = batch_size * x_dim"
    using xb by (rule mnist_batch_numel)
  have "shape ?x = [batch_size] @ [x_dim]"
    by simp
  from Model_forward_ok [OF wf this, of "gen s"] obtain x_hat mean log_var where
    fw: "Model_forward (model s) ?x (gen s)
           = Inr ((x_hat, mean, log_var), (\<lambda>i. gen s (i + prod_list [batch_size] * latent_dim)))"
    and sh: "shape x_hat = [batch_size] @ [x_dim]" "shape mean = [batch_size] @ [latent_dim]"
      "shape log_var = [batch_size] @ [latent_dim]"
    and twf: "tensor_wf x_hat" "tensor_wf mean" "tensor_wf log_var"
    and rg: "list_all (\<lambda>v. 0 < v \<and> v < 1) (data x_hat)"
    by blast
  have lenh: "length (data x_hat) = batch_size * x_dim"
    using sh(1) twf(1) by (simp add: tensor_wf_def)
  have "\<exists>v. loss_function ?x x_hat mean log_var = Inr v \<and> 0 < v"
  proof (rule loss_function_pos)
    show "shape x_hat = shape ?x" using sh(1) by simp
    show "length (data x_hat) = length (data ?x)" using lenh lenx by simp
    show "data ?x \<noteq> []" using mnist_batch_nonempty [OF xb] by simp
    show "list_all (\<lambda>y. 0 \<le> y \<and> y \<le> 1) (data ?x)" using xb by (simp add: mnist_batch_def)
    show "list_all (\<lambda>p. 0 < p \<and> p < 1) (data x_hat)" by (rule rg)
    show "shape mean = shape log_var" using sh by simp
    show "tensor_wf mean" "tensor_wf log_var" by (rule twf)+
  qed
  then obtain loss where loss: "loss_function ?x x_hat mean log_var = Inr loss" "0 < loss"
    by blast
  obtain ci where ci: "composed_image ?x = Inr ci"
    using composed_image_ok [of ?x] by auto
  obtain cp where cp: "composed_image x_hat = Inr cp"
    using composed_image_ok [of x_hat] sh(1) by auto
  obtain opt' model' where os: "optimizer_step (optimizer s) (model s) ?x (gen s) = (opt', model')"
    by (cases "optimizer_step (optimizer s) (model s) ?x (gen s)")
  have wf': "Model_wf model'"
    using step wf os by (metis snd_conv)
  show ?thesis
    unfolding train_batch_def prod.case Let_def view fw loss os ci cp bind_err_simps
    using wf' loss(2) by (cases "i mod log_interval = 0") simp_all
qed


lemma train_batches_ok:
  assumes step: "\<forall>opt m x g. Model_wf m \<longrightarrow> Model_wf (snd (optimizer_step opt m x g))"
  shows "Model_wf (model s) \<Longrightarrow> list_all mnist_batch (map snd ibs) \<Longrightarrow>
         \<exists>s'. train_batches optimizer_step s ibs = Inr s' \<and> Model_wf (model s') \<and>
              files s' = files s \<and> overall_loss s \<le> overall_loss s' \<and>
              (ibs \<noteq> [] \<longrightarrow> v_batch_idx s' = Some (fst (last ibs)) \<and>
                           overall_loss s < overall_loss s')"
proof (induction ibs arbitrary: s)
  case Nil
  then show ?case by simp
next
  case (Cons ib ibs)
  obtain i xb where ib: "ib = (i, xb)"
    by (cases ib)
  with Cons.prems have xb: "mnist_batch xb" and rest: "list_all mnist_batch (map snd ibs)"
    by simp_all
  from train_batch_ok [OF step Cons.prems(1) xb, of i] obtain s1 where
    s1: "train_batch optimizer_step s (i, xb) = Inr s1" "Model_wf (model s1)"
      "v_batch_idx s1 = Some i" "overall_loss s < overall_loss s1" "files s1 = files s"
    by blast
  from Cons.IH [OF s1(2) rest] obtain s2 where
    s2: "train_batches optimizer_step s1 ibs = Inr s2" "Model_wf (model s2)"
      "files s2 = files s1" "overall_loss s1 \<le> overall_loss s2"
      "ibs \<noteq> [] \<longrightarrow> v_batch_idx s2 = Some (fst (last ibs)) \<and> overall_loss s1 < overall_loss s2"
    by blast
  have "train_batches optimizer_step s (ib # ibs) = Inr s2"
    by (simp add: ib s1(1) s2(1))
  moreover have "v_batch_idx s2 = Some (fst (last (ib # ibs)))"
  proof (cases ibs)
    case Nil
    with s2(1) s1(3) ib show ?thesis by simp
  next
    case (Cons a as)
    with s2(5) show ?thesis by simp
  qed
  ultimately show ?case
    using s1 s2 by auto
qed

lemma last_enumerate:
  "bs \<noteq> [] \<Longrightarrow> fst (last (List.enumerate 0 bs)) = length bs - 1"
proof -
  assume ne: "bs \<noteq> []"
  then have "last (List.enumerate 0 bs) = List.enumerate 0 bs ! (length bs - 1)"
    by (subst last_conv_nth) (simp_all add: enumerate_eq_zip)
  also have "\<dots> = (0 + (length bs - 1), bs ! (length bs - 1))"
    using ne by (intro nth_enumerate_eq) simp
  finally show ?thesis
    by simp
qed

text \<open>
  Claim C7. The progress line at the end of an epoch does not report the accumulated loss
  divided by the number of samples processed. For an epoch of at least two batches of the
  data pipeline, the epoch completes, the accumulated loss is positive, and the line printed
  last holds the accumulated loss divided by \<open>(length batches - 1) \<cdot> batch_size\<close>, the index of
  the last batch times the batch size, which is not the accumulated loss divided by the
  \<open>length batches \<cdot> batch_size\<close> samples processed.
\<close>

theorem epoch_line_divides_by_last_index:
  assumes step: "\<forall>opt m x g. Model_wf m \<longrightarrow> Model_wf (snd (optimizer_step opt m x g))"
      and wf: "Model_wf (model s)"
      and bs: "list_all mnist_batch batches"
      and two: "2 \<le> length batches"
  shows "\<exists>s'. train_epoch optimizer_step batches s epoch = Inr s' \<and>
              0 < overall_loss s' \<and>
              last (stdout s')
                = PrintEpoch (epoch + 1)
                    (overall_loss s' / real ((length batches - 1) * batch_size)) \<and>
              overall_loss s' / real ((length batches - 1) * batch_size)
                \<noteq> overall_loss s' / real (length batches * batch_size)"
proof -
  let ?s0 = "s\<lparr>overall_loss := 0\<rparr>"
  have ne: "List.enumerate 0 batches \<noteq> []"
    using two by (auto simp: enumerate_eq_zip)
  have "Model_wf (model ?s0)" "list_all mnist_batch (map snd (List.enumerate 0 batches))"
    using wf bs by simp_all
  from train_batches_ok [OF step this] ne obtain s1 where
    s1: "train_batches optimizer_step ?s0 (List.enumerate 0 batches) = Inr s1"
      "v_batch_idx s1 = Some (fst (last (List.enumerate 0 batches)))"
      "overall_loss ?s0 < overall_loss s1"
    by blast
  have pos: "0 < overall_loss s1"
    using s1(3) by simp
  have bne: "batches \<noteq> []"
    using two by auto
  have nz: "(length batches - 1) * batch_size \<noteq> 0"
    using two by (simp add: batch_size_def)
  have idx: "v_batch_idx s1 = Some (length batches - 1)"
    using s1(2) last_enumerate [OF bne] by simp
  let ?s' = "s1\<lparr>stdout := stdout s1 @
               [PrintEpoch (epoch + 1)
                  (overall_loss s1 / real ((length batches - 1) * batch_size))]\<rparr>"
  have run: "train_epoch optimizer_step batches s epoch = Inr ?s'"
    unfolding train_epoch_def s1(1) bind_err_simps idx using nz by simp
  have "real ((length batches - 1) * batch_size) \<noteq> real (length batches * batch_size)"
    using two by (simp add: batch_size_def)
  moreover have "0 < real ((length batches - 1) * batch_size)"
    using nz by simp
  moreover have "0 < real (length batches * batch_size)"
    using bne by (simp add: batch_size_def)
  ultimately have
    "overall_loss s1 / real ((length batches - 1) * batch_size)
       \<noteq> overall_loss s1 / real (length batches * batch_size)"
    using pos by (simp add: field_simps)
  with run pos show ?thesis
    by simp
qed

lemma zeros_in_unit_interval: "list_all (\<lambda>v. 0 \<le> v \<and> v \<le> 1) (data (zeros s))"
  by (simp add: list_all_iff)

lemma mnist_zero_batch: "mnist_batch zero_batch"
  unfolding mnist_batch_def zero_batch_def
  by (intro conjI zeros_shape zeros_wf zeros_in_unit_interval)

lemma model_zero_state: "model zero_state = zero_model"
  by (simp add: zero_state_def initial_state_def)

text \<open>The statement at an epoch of two batches: the line holds the loss divided by 100.\<close>

theorem epoch_line_divides_by_last_index_witness:
  "Model_wf (model zero_state) \<and> list_all mnist_batch [zero_batch, zero_batch] \<and>
   (\<exists>s'. train_epoch keep_parameters [zero_batch, zero_batch] zero_state 0 = Inr s' \<and>
         last (stdout s') = PrintEpoch 1 (overall_loss s' / real (1 * batch_size)) \<and>
         overall_loss s' / real (1 * batch_size) \<noteq> overall_loss s' / real (2 * batch_size))"
proof -
  have step: "\<forall>opt m x g. Model_wf m \<longrightarrow> Model_wf (snd (keep_parameters opt m x g))"
    by (simp add: keep_parameters_def)
  have wf: "Model_wf (model zero_state)"
    unfolding model_zero_state by (rule zero_model_wf)
  have bs: "list_all mnist_batch [zero_batch, zero_batch]"
    using mnist_zero_batch by simp
  have two: "2 \<le> length [zero_batch, zero_batch]"
    by simp
  from epoch_line_divides_by_last_index [OF step wf bs two, of 0]
  obtain s' where
    "train_epoch keep_parameters [zero_batch, zero_batch] zero_state 0 = Inr s'"
    "last (stdout s') = PrintEpoch 1 (overall_loss s' / real (1 * batch_size))"
    "overall_loss s' / real (1 * batch_size) \<noteq> overall_loss s' / real (2 * batch_size)"
    by auto
  with wf bs show ?thesis
    by blast
qed

section \<open>The evaluation phase\<close>

lemma eval_batches_first:
  assumes wf: "Model_wf (model s)" and xb: "mnist_batch xb"
  shows "\<exists>x_hat g'.
           eval_batches s ((i, xb) # rest)
             = Inr (s\<lparr>gen := g',
                      stdout := (if i mod 100 = 0 then stdout s @ [PrintInt i] else stdout s),
                      v_batch_idx := Some i,
                      v_x := Some \<lparr>shape = [batch_size, x_dim], data = data xb\<rparr>,
                      v_x_hat := Some x_hat\<rparr>) \<and>
           shape x_hat = [batch_size, x_dim] \<and> tensor_wf x_hat"
proof -
  let ?x = "\<lparr>shape = [batch_size, x_dim], data = data xb\<rparr>"
  have view: "tensor_view xb [batch_size, x_dim] = Inr ?x"
    using xb by (rule view_mnist_batch)
  have "shape ?x = [batch_size] @ [x_dim]"
    by simp
  from Model_forward_ok [OF wf this, of "gen s"] obtain x_hat mean log_var where
    fw: "Model_forward (model s) ?x (gen s)
           = Inr ((x_hat, mean, log_var), (\<lambda>i. gen s (i + prod_list [batch_size] * latent_dim)))"
    and sh: "shape x_hat = [batch_size] @ [x_dim]" and twf: "tensor_wf x_hat"
    by blast
  show ?thesis
    unfolding eval_batches.simps Let_def view fw bind_err_simps prod.case
    using sh twf by auto
qed






section \<open>A run without training\<close>

lemma training_zero_epochs:
  "training optimizer_step 0 train_loader s
   = Inr (s\<lparr>stdout := stdout s @ [PrintStr ''Start training VAE...'', PrintStr ''Finish!!'']\<rparr>)"
  by (simp add: training_def)

lemma save_reconstructions_ok:
  assumes "v_x s = Some x" "v_x_hat s = Some x_hat"
      and "prod_list (shape x) = batch_size * x_dim"
      and "prod_list (shape x_hat) = batch_size * x_dim"
  shows "save_reconstructions s
         = Inr (s\<lparr>files := files s @
                   [(''orig_data.png'', \<lparr>shape = [batch_size, 1, 28, 28], data = data x\<rparr>),
                    (''reconstructions.png'',
                     \<lparr>shape = [batch_size, 1, 28, 28], data = data x_hat\<rparr>)]\<rparr>)"
proof -
  have a: "tensor_view x [batch_size, 1, 28, 28]
           = Inr \<lparr>shape = [batch_size, 1, 28, 28], data = data x\<rparr>"
    by (rule tensor_view_ok) (simp only: numel_image_batch assms(3))
  have b: "tensor_view x_hat [batch_size, 1, 28, 28]
           = Inr \<lparr>shape = [batch_size, 1, 28, 28], data = data x_hat\<rparr>"
    by (rule tensor_view_ok) (simp only: numel_image_batch assms(4))
  show ?thesis
    unfolding save_reconstructions_def assms(1,2) option.case a b bind_err_simps
    by (simp add: save_image_def)
qed

lemma generate_samples_ok:
  assumes "Model_wf (model s)"
  shows "\<exists>c g'. generate_samples s
                  = Inr (s\<lparr>gen := g', files := files s @ [(''generated_sample.png'', c)]\<rparr>) \<and>
                shape c = [batch_size, 1, 28, 28] \<and> length (data c) = batch_size * x_dim"
proof -
  let ?noise = "\<lparr>shape = [batch_size, latent_dim],
                 data = map (gen s) [0..<prod_list [batch_size, latent_dim]]\<rparr>"
  let ?g = "\<lambda>i. gen s (i + prod_list [batch_size, latent_dim])"
  have rn: "torch_randn [batch_size, latent_dim] (gen s) = (?noise, ?g)"
    by (simp add: torch_randn_def)
  have d: "Decoder_wf (decoder (model s)) latent_dim hidden_dim x_dim"
    using assms by (simp add: Model_wf_def)
  have "shape ?noise = [batch_size] @ [latent_dim]"
    by simp
  from Decoder_forward_ok [OF d this] obtain y where
    y: "Decoder_forward (decoder (model s)) ?noise = Inr y" "shape y = [batch_size] @ [x_dim]"
      "tensor_wf y"
    by blast
  have len: "length (data y) = batch_size * x_dim" "prod_list (shape y) = batch_size * x_dim"
    using y(2,3) by (simp_all add: tensor_wf_def)
  have v: "tensor_view y [batch_size, 1, 28, 28]
           = Inr \<lparr>shape = [batch_size, 1, 28, 28], data = data y\<rparr>"
    by (rule tensor_view_ok) (simp only: numel_image_batch len)
  have "generate_samples s
        = Inr (s\<lparr>gen := ?g,
                 files := files s @
                   [(''generated_sample.png'',
                     \<lparr>shape = [batch_size, 1, 28, 28], data = data y\<rparr>)]\<rparr>)"
    unfolding generate_samples_def rn prod.case y(1) v bind_err_simps
    by (simp add: save_image_def)
  with len(1) show ?thesis
    by (intro exI [of _ "\<lparr>shape = [batch_size, 1, 28, 28], data = data y\<rparr>"] exI [of _ ?g])
      simp
qed

text \<open>
  Claim C9. With 0 training epochs the body of the training loop never runs: the script,
  started on any model of the constructors' shapes and a test loader whose first batch is a
  batch of the data pipeline, returns with the model and the optimizer it started from,
  nothing sent to the tracker and no line printed by a training step. The evaluation and
  sampling steps still write the three image files, each from a tensor of 100 images of 1
  by 28 by 28 values.
\<close>

theorem zero_epochs_run:
  assumes wf: "Model_wf m" and xb: "mnist_batch xb"
  shows "\<exists>s' a b c.
           script optimizer_step 0 train_loader (xb # rest) (initial_state m opt g) = Inr s' \<and>
           model s' = m \<and> optimizer s' = opt \<and> wandb_log s' = [] \<and>
           stdout s' = [PrintStr ''Start training VAE...'', PrintStr ''Finish!!'', PrintInt 0] \<and>
           files s' = [(''orig_data.png'', a), (''reconstructions.png'', b),
                       (''generated_sample.png'', c)] \<and>
           list_all (\<lambda>t. shape t = [100, 1, 28, 28] \<and> length (data t) = 100 * (28 * 28))
             [a, b, c]"
proof -
  let ?s1 = "(initial_state m opt g)
               \<lparr>stdout := stdout (initial_state m opt g) @
                  [PrintStr ''Start training VAE...'', PrintStr ''Finish!!'']\<rparr>"
  have tr: "training optimizer_step 0 train_loader (initial_state m opt g) = Inr ?s1"
    by (rule training_zero_epochs)
  have wf1: "Model_wf (model ?s1)"
    using wf by (simp add: initial_state_def)
  let ?x = "\<lparr>shape = [batch_size, x_dim], data = data xb\<rparr>"
  from eval_batches_first [OF wf1 xb, of 0 "List.enumerate 1 rest"] obtain x_hat g1 where
    ev: "evaluation (xb # rest) ?s1
         = Inr (?s1\<lparr>gen := g1, stdout := stdout ?s1 @ [PrintInt 0], v_batch_idx := Some 0,
                    v_x := Some ?x, v_x_hat := Some x_hat\<rparr>)"
    and xh: "shape x_hat = [batch_size, x_dim]" "tensor_wf x_hat"
    by (auto simp: evaluation_def)
  let ?s2 = "?s1\<lparr>gen := g1, stdout := stdout ?s1 @ [PrintInt 0], v_batch_idx := Some 0,
                 v_x := Some ?x, v_x_hat := Some x_hat\<rparr>"
  let ?a = "\<lparr>shape = [batch_size, 1, 28, 28], data = data ?x\<rparr>"
  let ?b = "\<lparr>shape = [batch_size, 1, 28, 28], data = data x_hat\<rparr>"
  have sv: "save_reconstructions ?s2
            = Inr (?s2\<lparr>files := files ?s2 @
                       [(''orig_data.png'', ?a), (''reconstructions.png'', ?b)]\<rparr>)"
    by (rule save_reconstructions_ok) (simp_all add: xh)
  let ?s3 = "?s2\<lparr>files := files ?s2 @
                 [(''orig_data.png'', ?a), (''reconstructions.png'', ?b)]\<rparr>"
  have wf3: "Model_wf (model ?s3)"
    using wf by (simp add: initial_state_def)
  from generate_samples_ok [OF wf3] obtain c g2 where
    gs: "generate_samples ?s3
         = Inr (?s3\<lparr>gen := g2, files := files ?s3 @ [(''generated_sample.png'', c)]\<rparr>)"
    and c: "shape c = [batch_size, 1, 28, 28]" "length (data c) = batch_size * x_dim"
    by blast
  let ?s4 = "?s3\<lparr>gen := g2, files := files ?s3 @ [(''generated_sample.png'', c)]\<rparr>"
  have run: "script optimizer_step 0 train_loader (xb # rest) (initial_state m opt g) = Inr ?s4"
    unfolding script_def tr bind_err_simps ev sv gs ..
  have la: "length (data ?a) = batch_size * x_dim"
    using mnist_batch_numel(2) [OF xb] by simp
  have lb: "length (data ?b) = batch_size * x_dim"
    using xh by (simp add: tensor_wf_def)
  have imgs: "list_all (\<lambda>t. shape t = [100, 1, 28, 28] \<and> length (data t) = 100 * (28 * 28))
                [?a, ?b, c]"
    using la lb c by (simp add: batch_size_def x_dim_def)
  have "model ?s4 = m \<and> optimizer ?s4 = opt \<and> wandb_log ?s4 = [] \<and>
        stdout ?s4 = [PrintStr ''Start training VAE...'', PrintStr ''Finish!!'', PrintInt 0] \<and>
        files ?s4 = [(''orig_data.png'', ?a), (''reconstructions.png'', ?b),
                     (''generated_sample.png'', c)]"
    by (simp add: initial_state_def)
  with run imgs show ?thesis
    by blast
qed

text \<open>The claim for the model with all parameters 0 and a test loader of two batches.\<close>

theorem zero_epochs_run_witness:
  "Model_wf zero_model \<and> mnist_batch zero_batch \<and>
   (\<exists>s' a b c.
      script keep_parameters 0 (\<lambda>epoch. [zero_batch, zero_batch]) [zero_batch, zero_batch]
        zero_state = Inr s' \<and>
      model s' = zero_model \<and>
      files s' = [(''orig_data.png'', a), (''reconstructions.png'', b),
                  (''generated_sample.png'', c)] \<and>
      list_all (\<lambda>t. shape t = [100, 1, 28, 28] \<and> length (data t) = 100 * (28 * 28))
        [a, b, c])"
proof -
  have h1: "Model_wf zero_model"
    by (rule zero_model_wf)
  have h2: "mnist_batch zero_batch"
    by (rule mnist_zero_batch)
  from zero_epochs_run [OF h1 h2, of keep_parameters "\<lambda>epoch. [zero_batch, zero_batch]"
      "[zero_batch]" "()" zero_gen]
  obtain s' a b c where
    "script keep_parameters 0 (\<lambda>epoch. [zero_batch, zero_batch]) [zero_batch, zero_batch]
       zero_state = Inr s'"
    "model s' = zero_model"
    "files s' = [(''orig_data.png'', a), (''reconstructions.png'', b),
                 (''generated_sample.png'', c)]"
    "list_all (\<lambda>t. shape t = [100, 1, 28, 28] \<and> length (data t) = 100 * (28 * 28)) [a, b, c]"
    unfolding zero_state_def by blast
  with h1 h2 show ?thesis
    by blast
qed

end
